theory Spec2Isabelle
  imports Complex_Main "HOL-Library.Word"
begin

unbundle bit_operations_syntax

section \<open>The BNO055 driver (bno055.py) as state-passing functions\<close>

text \<open>
  Python integers are \<open>int\<close>; a byte held in a \<open>bytearray\<close> or in a chip register is
  an \<open>8 word\<close>. A name of the source that starts with an underscore loses it
  (\<open>_CHIP_ID\<close> is \<open>CHIP_ID\<close>, \<open>_write_register\<close> is \<open>write_register\<close>), since an
  Isabelle name cannot start with one.
\<close>

subsection \<open>Module constants\<close>

definition CHIP_ID :: int where "CHIP_ID = 0xa0"

definition CONFIG_MODE :: int where "CONFIG_MODE = 0x00"
definition ACCONLY_MODE :: int where "ACCONLY_MODE = 0x01"
definition MAGONLY_MODE :: int where "MAGONLY_MODE = 0x02"
definition GYRONLY_MODE :: int where "GYRONLY_MODE = 0x03"
definition ACCMAG_MODE :: int where "ACCMAG_MODE = 0x04"
definition ACCGYRO_MODE :: int where "ACCGYRO_MODE = 0x05"
definition MAGGYRO_MODE :: int where "MAGGYRO_MODE = 0x06"
definition AMG_MODE :: int where "AMG_MODE = 0x07"
definition IMUPLUS_MODE :: int where "IMUPLUS_MODE = 0x08"
definition COMPASS_MODE :: int where "COMPASS_MODE = 0x09"
definition M4G_MODE :: int where "M4G_MODE = 0x0a"
definition NDOF_FMC_OFF_MODE :: int where "NDOF_FMC_OFF_MODE = 0x0b"
definition NDOF_MODE :: int where "NDOF_MODE = 0x0c"

definition POWER_NORMAL :: int where "POWER_NORMAL = 0x00"
definition POWER_LOW :: int where "POWER_LOW = 0x01"
definition POWER_SUSPEND :: int where "POWER_SUSPEND = 0x02"

definition MODE_REGISTER :: int where "MODE_REGISTER = 0x3d"
definition PAGE_REGISTER :: int where "PAGE_REGISTER = 0x07"
definition CALIBRATION_REGISTER :: int where "CALIBRATION_REGISTER = 0x35"
definition TRIGGER_REGISTER :: int where "TRIGGER_REGISTER = 0x3f"
definition POWER_REGISTER :: int where "POWER_REGISTER = 0x3e"
definition ID_REGISTER :: int where "ID_REGISTER = 0x00"

subsection \<open>Exceptions, bus events and the state\<close>

text \<open>
  The exceptions the module can raise. \<open>RuntimeError\<close> keeps its format string and the
  tuple of arguments apart instead of formatting the message.
\<close>

datatype error =
    RuntimeError string "int list"
  | ValueError string
  | TypeError string
  | AttributeError string
  | NameError string
  | NotImplementedError
  | OSError
  | FileNotFoundError
  | StructError

text \<open>
  What the driver does that can be seen from outside: a two-byte register write put on
  the bus (register, byte), a one-byte register read, a block read (first register,
  number of bytes), a block write, and a \<open>time.sleep\<close>, whose argument in seconds is
  kept in milliseconds (\<open>time.sleep(0.02)\<close> is \<open>Sleep 20\<close>). A read puts the address of
  the register on the bus and writes no register.
\<close>

datatype event =
    BusWrite "8 word" "8 word"
  | BusRead "8 word"
  | BusReadBlock "8 word" nat
  | BusWriteBlock "8 word" "8 word list"
  | Sleep nat

text \<open>
  Modelled from the spec: the register transport and the chip behind it are not part of
  the module (\<open>adafruit_bus_device\<close> and the hardware). Following sections 3 and 4.1 of
  the specification the chip is a file of byte registers in which a register reads
  back the last byte successfully written to it, and a transaction either completes or
  fails with a bus error. \<open>faults\<close> is the fate of the coming transactions, oldest first:
  \<open>True\<close> makes the transaction raise \<open>OSError\<close> without effect on the registers, and
  an empty list is a bus that never fails.

  \<open>buf0\<close> and \<open>buf1\<close> are the two bytes of \<open>self.buffer = bytearray(2)\<close>; \<open>trace\<close> is
  the list of events so far, oldest first.
\<close>

record bno055 =
  regs :: "8 word \<Rightarrow> 8 word"
  faults :: "bool list"
  trace :: "event list"
  buf0 :: "8 word"
  buf1 :: "8 word"

type_synonym 'a prog = "bno055 \<Rightarrow> (error + 'a) \<times> bno055"

definition ret :: "'a \<Rightarrow> 'a prog" where
  "ret x s = (Inr x, s)"

definition raise :: "error \<Rightarrow> 'a prog" where
  "raise e s = (Inl e, s)"

text \<open>Sequencing of two statements: an exception of the first skips the second.\<close>

definition seq :: "'a prog \<Rightarrow> ('a \<Rightarrow> 'b prog) \<Rightarrow> 'b prog" where
  "seq m f s = (case m s of (Inl e, s') \<Rightarrow> (Inl e, s') | (Inr x, s') \<Rightarrow> f x s')"

text \<open>\<^verbatim>\<open>try: m  except OSError: pass\<close>\<close>

definition try_except_OSError :: "unit prog \<Rightarrow> unit prog" where
  "try_except_OSError m s =
     (case m s of (Inl e, s') \<Rightarrow> (if e = OSError then (Inr (), s') else (Inl e, s'))
                | (Inr x, s') \<Rightarrow> (Inr x, s'))"

definition log :: "event \<Rightarrow> unit prog" where
  "log e s = (Inr (), s\<lparr>trace := trace s @ [e]\<rparr>)"

text \<open>\<open>time.sleep\<close>, in milliseconds.\<close>

definition sleep :: "nat \<Rightarrow> unit prog" where
  "sleep ms = log (Sleep ms)"

text \<open>One bus transaction begins: the next entry of the fault schedule decides it.\<close>

definition transaction :: "unit prog" where
  "transaction s =
     (case faults s of [] \<Rightarrow> (Inr (), s)
      | b # bs \<Rightarrow> (if b then (Inl OSError, s\<lparr>faults := bs\<rparr>) else (Inr (), s\<lparr>faults := bs\<rparr>)))"

text \<open>
  \<open>self.buffer[i] = value\<close>: a \<open>bytearray\<close> refuses an integer outside \<open>range(0, 256)\<close>
  with \<open>ValueError\<close>.
\<close>

definition set_buf0 :: "int \<Rightarrow> unit prog" where
  "set_buf0 v s =
     (if 0 \<le> v \<and> v < 256 then (Inr (), s\<lparr>buf0 := word_of_int v\<rparr>)
      else (Inl (ValueError ''byte must be in range(0, 256)''), s))"

definition set_buf1 :: "int \<Rightarrow> unit prog" where
  "set_buf1 v s =
     (if 0 \<le> v \<and> v < 256 then (Inr (), s\<lparr>buf1 := word_of_int v\<rparr>)
      else (Inl (ValueError ''byte must be in range(0, 256)''), s))"

text \<open>\<open>i2c.write(self.buffer)\<close>: the register \<open>buffer[0]\<close> takes the byte \<open>buffer[1]\<close>.\<close>

definition i2c_write :: "unit prog" where
  "i2c_write =
     seq (\<lambda>s. log (BusWrite (buf0 s) (buf1 s)) s) (\<lambda>_.
     seq transaction (\<lambda>_.
     (\<lambda>s. (Inr (), s\<lparr>regs := (regs s)(buf0 s := buf1 s)\<rparr>))))"

text \<open>
  \<open>i2c.write_then_readinto(self.buffer, self.buffer, out_end=1, in_start=1)\<close>: the
  register \<open>buffer[0]\<close> is read into \<open>buffer[1]\<close>.
\<close>

definition i2c_write_then_readinto :: "unit prog" where
  "i2c_write_then_readinto =
     seq (\<lambda>s. log (BusRead (buf0 s)) s) (\<lambda>_.
     seq transaction (\<lambda>_.
     (\<lambda>s. (Inr (), s\<lparr>buf1 := regs s (buf0 s)\<rparr>))))"

subsection \<open>Register access\<close>

definition write_register :: "int \<Rightarrow> int \<Rightarrow> unit prog" where
  "write_register register val =
     seq (set_buf0 register) (\<lambda>_.
     seq (set_buf1 val) (\<lambda>_.
     i2c_write))"

definition read_register :: "int \<Rightarrow> int prog" where
  "read_register register =
     seq (set_buf0 register) (\<lambda>_.
     seq i2c_write_then_readinto (\<lambda>_.
     (\<lambda>s. (Inr (uint (buf1 s)), s))))"

subsection \<open>The mode property\<close>

definition mode_get :: "int prog" where
  "mode_get = read_register MODE_REGISTER"

definition mode_set :: "int \<Rightarrow> unit prog" where
  "mode_set new_mode =
     seq (write_register MODE_REGISTER CONFIG_MODE) (\<lambda>_.
     seq (sleep 20) (\<lambda>_.
     if new_mode \<noteq> CONFIG_MODE then
       seq (write_register MODE_REGISTER new_mode) (\<lambda>_.
       sleep 10)
     else ret ()))"

subsection \<open>Initialisation\<close>

definition reset :: "unit prog" where
  "reset =
     seq (mode_set CONFIG_MODE) (\<lambda>_.
     seq (try_except_OSError (write_register TRIGGER_REGISTER 0x20)) (\<lambda>_.
     sleep 700))"

text \<open>The body of \<open>__init__\<close>, after \<open>self.buffer = bytearray(2)\<close>.\<close>

definition init :: "unit prog" where
  "init =
     seq (read_register ID_REGISTER) (\<lambda>chip_id.
     if chip_id \<noteq> CHIP_ID then
       raise (RuntimeError ''bad chip id (%x != %x)'' [chip_id, CHIP_ID])
     else
       seq reset (\<lambda>_.
       seq (write_register POWER_REGISTER POWER_NORMAL) (\<lambda>_.
       seq (write_register PAGE_REGISTER 0x00) (\<lambda>_.
       seq (write_register TRIGGER_REGISTER 0x00) (\<lambda>_.
       seq (sleep 10) (\<lambda>_.
       seq (mode_set NDOF_MODE) (\<lambda>_.
       sleep 10)))))))"

text \<open>
  \<open>BNO055(i2c)\<close>: the constructor run against a chip with the registers \<open>chip_regs\<close>
  on a bus with the fault schedule \<open>bus_faults\<close>. \<open>I2CDevice(i2c, address)\<close> is taken
  to have bound the chip. The scratch buffer starts as two zero bytes and nothing has
  happened yet. An exception means that no object is made.
\<close>

definition BNO055 :: "(8 word \<Rightarrow> 8 word) \<Rightarrow> bool list \<Rightarrow> (error + unit) \<times> bno055" where
  "BNO055 chip_regs bus_faults =
     init \<lparr>regs = chip_regs, faults = bus_faults, trace = [], buf0 = 0, buf1 = 0\<rparr>"

subsection \<open>Calibration status\<close>

definition calibration_status :: "(int \<times> int \<times> int \<times> int) prog" where
  "calibration_status =
     seq (read_register CALIBRATION_REGISTER) (\<lambda>calibration_data.
     let sys = (drop_bit 6 calibration_data) AND 0x03;
         gyro = (drop_bit 4 calibration_data) AND 0x03;
         accel = (drop_bit 2 calibration_data) AND 0x03;
         mag = calibration_data AND 0x03
     in ret (sys, gyro, accel, mag))"

definition calibrated :: "bool prog" where
  "calibrated =
     seq calibration_status (\<lambda>(sys, gyro, accel, mag).
     ret (sys = gyro \<and> gyro = accel \<and> accel = mag \<and> mag = 0x03))"

subsection \<open>Calibration data\<close>

text \<open>
  \<open>self.mode(CONFIG_MODE)\<close>: \<open>mode\<close> is a property, so \<open>self.mode\<close> is the integer the
  getter returns, and calling an integer raises \<open>TypeError\<close>.
\<close>

definition call_int :: "int \<Rightarrow> int list \<Rightarrow> unit prog" where
  "call_int f args = raise (TypeError ''int object is not callable'')"

text \<open>
  \<open>_read_bytes\<close> looks up \<open>self._i2c_device\<close>. The class only ever assigns
  \<open>self.i2c_device\<close>, so the lookup raises \<open>AttributeError\<close>.
\<close>

definition read_bytes :: "int \<Rightarrow> nat \<Rightarrow> int list prog" where
  "read_bytes address len = raise (AttributeError ''_i2c_device'')"

text \<open>
  Modelled from the spec: \<open>i2c.writeList\<close> belongs to the register transport, which
  is not part of the module. Following section 4.1 of the specification it is the
  block write: one transaction that stores the bytes in consecutive registers.
\<close>

fun store_block :: "8 word \<Rightarrow> 8 word list \<Rightarrow> (8 word \<Rightarrow> 8 word) \<Rightarrow> (8 word \<Rightarrow> 8 word)" where
  "store_block a [] f = f"
| "store_block a (b # bs) f = store_block (a + 1) bs (f(a := b))"

definition writeList :: "int \<Rightarrow> int list \<Rightarrow> unit prog" where
  "writeList address data =
     (if (0 \<le> address \<and> address < 256) \<and> list_all (\<lambda>v. 0 \<le> v \<and> v < 256) data then
        seq (log (BusWriteBlock (word_of_int address) (map word_of_int data))) (\<lambda>_.
        seq transaction (\<lambda>_ s.
          (Inr (), s\<lparr>regs := store_block (word_of_int address) (map word_of_int data) (regs s)\<rparr>)))
      else raise (ValueError ''byte must be in range(0, 256)''))"

definition write_bytes :: "int \<Rightarrow> int list \<Rightarrow> unit prog" where
  "write_bytes address data = writeList address data"

text \<open>
  A parameter of a \<open>def\<close> beyond \<open>self\<close>, at a call: given an argument or left without
  one. Python binds the arguments before it runs the body and raises \<open>TypeError\<close> for
  a parameter left without an argument.
\<close>

datatype 'a arg = Missing | Given 'a

definition missing_argument :: "string \<Rightarrow> string \<Rightarrow> 'a prog" where
  "missing_argument f p =
     raise (TypeError (f @ ''() missing 1 required positional argument: '' @ p))"

text \<open>Calling an object of a type that cannot be called.\<close>

definition not_callable :: "string \<Rightarrow> 'a prog" where
  "not_callable ty = raise (TypeError (ty @ '' object is not callable''))"

text \<open>Assigning to an attribute that is a property without a setter.\<close>

definition no_setter :: "string \<Rightarrow> 'a prog" where
  "no_setter name = raise (AttributeError (''property '' @ name @ '' has no setter''))"

text \<open>
  \<open>get_calibration\<close> is a property whose getter takes the sensor alone: reading
  \<open>sensor.get_calibration\<close> runs the body.
\<close>

definition get_calibration :: "int list prog" where
  "get_calibration =
     seq calibrated (\<lambda>c.
     if \<not> c then raise (ValueError ''Device not yet calibrated!'')
     else
       seq mode_get (\<lambda>m.
       seq (call_int m [CONFIG_MODE]) (\<lambda>_.
       seq (read_bytes 0x55 22) (\<lambda>data.
       seq mode_get (\<lambda>m'.
       seq (call_int m' [NDOF_MODE]) (\<lambda>_.
       ret data))))))"

text \<open>
  The function that \<open>def set_calibration(self, data)\<close> defines, which \<open>@property\<close>
  takes as the getter (\<open>fget\<close>) of the attribute. An argument for \<open>data\<close> is \<open>None\<close> or
  a list of integers.
\<close>

definition set_calibration_fget :: "int list option arg \<Rightarrow> unit prog" where
  "set_calibration_fget a =
     (case a of
        Missing \<Rightarrow> missing_argument ''set_calibration'' ''data''
      | Given data \<Rightarrow>
          (case data of
             None \<Rightarrow> raise (ValueError ''Expected a list of 22 bytes of calibration data!'')
           | Some d \<Rightarrow>
               if length d \<noteq> 22 then
                 raise (ValueError ''Expected a list of 22 bytes of calibration data!'')
               else
                 seq mode_get (\<lambda>m.
                 seq (call_int m [CONFIG_MODE]) (\<lambda>_.
                 seq (write_bytes 0x55 d) (\<lambda>_.
                 seq mode_get (\<lambda>m'.
                 call_int m' [NDOF_MODE]))))))"

text \<open>
  The attribute \<open>set_calibration\<close> of the class is the property: reading
  \<open>sensor.set_calibration\<close> calls the getter with the sensor alone, so \<open>data\<close> is left
  without an argument.
\<close>

definition set_calibration :: "unit prog" where
  "set_calibration = set_calibration_fget Missing"

text \<open>
  \<open>sensor.set_calibration(data)\<close> reads the attribute and then calls what the read
  gave, which would be the \<open>None\<close> the function returns.
\<close>

definition set_calibration_call :: "int list option \<Rightarrow> unit prog" where
  "set_calibration_call data = seq set_calibration (\<lambda>_. not_callable ''NoneType'')"

text \<open>\<open>sensor.set_calibration = data\<close>: the property has no setter.\<close>

definition set_calibration_assign :: "int list option \<Rightarrow> unit prog" where
  "set_calibration_assign data = no_setter ''set_calibration''"

subsection \<open>The calibration file\<close>

text \<open>\<open>text.split(sep)\<close> for a separator of one character.\<close>

fun split_str :: "char \<Rightarrow> string \<Rightarrow> string list" where
  "split_str sep [] = [[]]"
| "split_str sep (c # cs) =
     (if c = sep then [] # split_str sep cs
      else (case split_str sep cs of
              [] \<Rightarrow> [[c]]
            | w # ws \<Rightarrow> (c # w) # ws))"

text \<open>
  An open text file is the text not read yet; \<open>f.read()\<close> returns all of it and
  leaves nothing.
\<close>

definition fread :: "string \<Rightarrow> string \<times> string" where
  "fread f = (f, [])"

text \<open>
  The loop body \<open>data[idx] = byte(item, 'utf-8')\<close> evaluates its right-hand side first;
  the module defines and imports no \<open>byte\<close>, so the first pass raises \<open>NameError\<close>.
\<close>

fun load_loop :: "string list \<Rightarrow> int list \<Rightarrow> int list prog" where
  "load_loop [] data = ret data"
| "load_loop (item # items) data =
     seq (raise (NameError ''byte'')) (\<lambda>b.
     seq (raise (NameError ''idx'')) (\<lambda>idx.
     load_loop items (data[idx := b])))"

text \<open>
  The function that \<open>def load_calibration(self, fpath)\<close> defines, the getter of the
  property of that name. \<open>file\<close> is what is stored under
  \<open>CAL_DATA_PATH + CAL_DATA_NAME\<close>: \<open>None\<close> when there is no such file, otherwise its
  text as \<open>f.read()\<close> decodes it.
\<close>

definition load_calibration_fget :: "string arg \<Rightarrow> string option \<Rightarrow> int list prog" where
  "load_calibration_fget a file =
     (case a of
        Missing \<Rightarrow> missing_argument ''load_calibration'' ''fpath''
      | Given fpath \<Rightarrow>
          (let data = replicate 22 (0 :: int) in
           case file of
             None \<Rightarrow> raise FileNotFoundError
           | Some f \<Rightarrow>
               (let (text1, f1) = fread f in
                if length (split_str (CHR 0x0A) text1) \<noteq> 22 then
                  raise (ValueError ''Expected a list of 22 bytes of calibration data!'')
                else
                  (let (text2, f2) = fread f1 in
                   seq (load_loop (split_str (CHR 0x0A) text2) data) (\<lambda>data'.
                   ret data')))))"

text \<open>
  Reading \<open>sensor.load_calibration\<close> calls the getter with the sensor alone, and
  \<open>sensor.load_calibration(fpath)\<close> reads the attribute and then calls what the read
  gave, which would be the \<open>bytearray\<close> the function returns.
\<close>

definition load_calibration :: "string option \<Rightarrow> int list prog" where
  "load_calibration file = load_calibration_fget Missing file"

definition load_calibration_call :: "string \<Rightarrow> string option \<Rightarrow> int list prog" where
  "load_calibration_call fpath file =
     seq (load_calibration file) (\<lambda>_. not_callable ''bytearray'')"

subsection \<open>External crystal\<close>

definition external_crystal :: "bool prog" where
  "external_crystal =
     seq mode_get (\<lambda>last_mode.
     seq (mode_set CONFIG_MODE) (\<lambda>_.
     seq (write_register PAGE_REGISTER 0x00) (\<lambda>_.
     seq (read_register TRIGGER_REGISTER) (\<lambda>val.
     seq (mode_set last_mode) (\<lambda>_.
     ret (val = 0x80))))))"

definition use_external_crystal :: "bool \<Rightarrow> unit prog" where
  "use_external_crystal val =
     seq mode_get (\<lambda>last_mode.
     seq (mode_set CONFIG_MODE) (\<lambda>_.
     seq (write_register PAGE_REGISTER 0x00) (\<lambda>_.
     seq (write_register TRIGGER_REGISTER (if val then 0x80 else 0x00)) (\<lambda>_.
     seq (mode_set last_mode) (\<lambda>_.
     sleep 10)))))"

subsection \<open>Read-only register descriptors\<close>

text \<open>
  The two descriptor classes with the arguments of their constructors. A scale is a
  Python float; it is kept as the exact rational, so rounding is not modelled.
\<close>

datatype descriptor =
    ScaledReadOnlyStruct (register_address: int) (struct_format: string) (scale: rat)
  | ReadOnlyUnaryStruct (register_address: int) (struct_format: string)

definition temperature :: descriptor where
  "temperature = ReadOnlyUnaryStruct 0x34 ''b''"
definition accelerometer :: descriptor where
  "accelerometer = ScaledReadOnlyStruct 0x08 ''<hhh'' (1 / 100)"
definition acceleration :: descriptor where
  "acceleration = ScaledReadOnlyStruct 0x08 ''<hhh'' (1 / 100)"
definition magnetometer :: descriptor where
  "magnetometer = ScaledReadOnlyStruct 0x0e ''<hhh'' (1 / 16)"
definition magnetic :: descriptor where
  "magnetic = ScaledReadOnlyStruct 0x0e ''<hhh'' (1 / 16)"
definition gyroscope :: descriptor where
  "gyroscope = ScaledReadOnlyStruct 0x14 ''<hhh'' (1 / 16)"
definition euler :: descriptor where
  "euler = ScaledReadOnlyStruct 0x1a ''<hhh'' (1 / 16)"
definition quaternion :: descriptor where
  "quaternion = ScaledReadOnlyStruct 0x20 ''<hhhh'' (1 / of_int (push_bit 14 1))"
definition linear_acceleration :: descriptor where
  "linear_acceleration = ScaledReadOnlyStruct 0x28 ''<hhh'' (1 / 100)"
definition gravity :: descriptor where
  "gravity = ScaledReadOnlyStruct 0x2e ''<hhh'' (1 / 100)"

text \<open>
  Modelled from the spec: \<open>Struct.__get__\<close> of \<open>adafruit_register\<close> and \<open>struct\<close> of
  the standard library are not part of the module. Following section 4.2 of the
  specification the read takes as many bytes as the layout needs, from consecutive
  registers starting at the base address in one transaction, and decodes them as
  little-endian signed integers: two bytes for each \<open>h\<close>, one for each \<open>b\<close>.
\<close>

definition int16_le :: "8 word \<Rightarrow> 8 word \<Rightarrow> int" where
  "int16_le lo hi =
     (let u = uint lo + 256 * uint hi in if u < 32768 then u else u - 65536)"

fun unpack_fields :: "string \<Rightarrow> 8 word list \<Rightarrow> int list option" where
  "unpack_fields [] bs = (if bs = [] then Some [] else None)"
| "unpack_fields (c # cs) bs =
     (if c = CHR ''h'' then
        (case bs of
           lo # hi # rest \<Rightarrow> map_option (\<lambda>vs. int16_le lo hi # vs) (unpack_fields cs rest)
         | _ \<Rightarrow> None)
      else if c = CHR ''b'' then
        (case bs of
           b # rest \<Rightarrow> map_option (\<lambda>vs. sint b # vs) (unpack_fields cs rest)
         | _ \<Rightarrow> None)
      else None)"

fun calcsize_fields :: "string \<Rightarrow> nat option" where
  "calcsize_fields [] = Some 0"
| "calcsize_fields (c # cs) =
     (if c = CHR ''h'' then map_option (\<lambda>n. 2 + n) (calcsize_fields cs)
      else if c = CHR ''b'' then map_option (\<lambda>n. 1 + n) (calcsize_fields cs)
      else None)"

text \<open>The byte-order mark \<open><\<close> is optional in front of the fields.\<close>

definition fields_of :: "string \<Rightarrow> string" where
  "fields_of fmt = (case fmt of c # cs \<Rightarrow> (if c = CHR ''<'' then cs else fmt) | [] \<Rightarrow> [])"

definition read_block :: "8 word \<Rightarrow> nat \<Rightarrow> 8 word list prog" where
  "read_block a n =
     seq (log (BusReadBlock a n)) (\<lambda>_.
     seq transaction (\<lambda>_ s.
     (Inr (map (\<lambda>i. regs s (a + of_nat i)) [0..<n]), s)))"

definition Struct_get :: "int \<Rightarrow> string \<Rightarrow> int list prog" where
  "Struct_get address fmt =
     (case calcsize_fields (fields_of fmt) of
        None \<Rightarrow> raise StructError
      | Some n \<Rightarrow>
          seq (read_block (word_of_int address) n) (\<lambda>bs.
          case unpack_fields (fields_of fmt) bs of
            None \<Rightarrow> raise StructError
          | Some vs \<Rightarrow> ret vs))"

text \<open>
  Modelled from the spec: \<open>UnaryStruct.__get__\<close> of \<open>adafruit_register\<close>, which
  \<open>_ReadOnlyUnaryStruct\<close> inherits, is not part of the module. Following section 4.2 of
  the specification it is the same read, returning the single field as it is.
\<close>

definition UnaryStruct_get :: "int \<Rightarrow> string \<Rightarrow> int prog" where
  "UnaryStruct_get address fmt =
     seq (Struct_get address fmt) (\<lambda>result.
     case result of [] \<Rightarrow> raise StructError | v # _ \<Rightarrow> ret v)"

text \<open>\<open>_ScaledReadOnlyStruct.__get__\<close>; the tuple is a list.\<close>

definition ScaledReadOnlyStruct_get :: "int \<Rightarrow> string \<Rightarrow> rat \<Rightarrow> rat list prog" where
  "ScaledReadOnlyStruct_get address fmt k =
     seq (Struct_get address fmt) (\<lambda>result.
     ret (map (\<lambda>v. k * of_int v) result))"

text \<open>\<open>_ScaledReadOnlyStruct.__set__\<close> and \<open>_ReadOnlyUnaryStruct.__set__\<close>.\<close>

definition ScaledReadOnlyStruct_set :: "'v \<Rightarrow> unit prog" where
  "ScaledReadOnlyStruct_set v = raise NotImplementedError"

definition ReadOnlyUnaryStruct_set :: "'v \<Rightarrow> unit prog" where
  "ReadOnlyUnaryStruct_set v = raise NotImplementedError"

text \<open>
  Reading and assigning an attribute of the sensor that is bound to a descriptor:
  Python calls the \<open>__get__\<close> or \<open>__set__\<close> of the descriptor's class. What a read
  returns is a tuple of floats or an integer.
\<close>

datatype pyvalue = PyTuple "rat list" | PyInt int

fun getattr :: "descriptor \<Rightarrow> pyvalue prog" where
  "getattr (ScaledReadOnlyStruct a f k) =
     seq (ScaledReadOnlyStruct_get a f k) (\<lambda>vs. ret (PyTuple vs))"
| "getattr (ReadOnlyUnaryStruct a f) =
     seq (UnaryStruct_get a f) (\<lambda>v. ret (PyInt v))"

fun setattr :: "descriptor \<Rightarrow> 'v \<Rightarrow> unit prog" where
  "setattr (ScaledReadOnlyStruct a f k) v = ScaledReadOnlyStruct_set v"
| "setattr (ReadOnlyUnaryStruct a f) v = ReadOnlyUnaryStruct_set v"

subsection \<open>A chip on the bench\<close>

text \<open>
  A chip with the given identity byte, calibration status byte and mode byte, every
  other register zero, on a bus that does not fail, with a driver that has done nothing.
\<close>

definition bench :: "8 word \<Rightarrow> 8 word \<Rightarrow> 8 word \<Rightarrow> bno055" where
  "bench ident status md =
     \<lparr>regs = (\<lambda>_. 0)(0x00 := ident, 0x35 := status, 0x3d := md),
      faults = [], trace = [], buf0 = 0, buf1 = 0\<rparr>"

section \<open>Helper lemmas\<close>

lemma uint_byte_less: "uint (w :: 8 word) < 256"
  using uint_lt2p [of w] by simp

lemma write_register_ok:
  assumes "0 \<le> r" "r < 256" "0 \<le> v" "v < 256" "faults s = []"
  shows "write_register r v s =
         (Inr (), s\<lparr>buf0 := word_of_int r, buf1 := word_of_int v,
                    trace := trace s @ [BusWrite (word_of_int r) (word_of_int v)],
                    regs := (regs s)(word_of_int r := word_of_int v)\<rparr>)"
  using assms
  by (simp add: write_register_def seq_def set_buf0_def set_buf1_def i2c_write_def
      log_def transaction_def)

lemma read_register_ok:
  assumes "0 \<le> r" "r < 256" "faults s = []"
  shows "read_register r s =
         (Inr (uint (regs s (word_of_int r))),
          s\<lparr>buf0 := word_of_int r, trace := trace s @ [BusRead (word_of_int r)],
            buf1 := regs s (word_of_int r)\<rparr>)"
  using assms
  by (simp add: read_register_def seq_def set_buf0_def i2c_write_then_readinto_def
      log_def transaction_def)

lemma sleep_ok: "sleep ms s = (Inr (), s\<lparr>trace := trace s @ [Sleep ms]\<rparr>)"
  by (simp add: sleep_def log_def)

lemma mode_set_ok:
  assumes "0 \<le> M" "M < 256" "faults s = []"
  shows "mode_set M s =
         (Inr (), s\<lparr>buf0 := 0x3d, buf1 := word_of_int M,
                    trace := trace s @
                      (if M = 0 then [BusWrite 0x3d 0x00, Sleep 20]
                       else [BusWrite 0x3d 0x00, Sleep 20,
                             BusWrite 0x3d (word_of_int M), Sleep 10]),
                    regs := (regs s)(0x3d := word_of_int M)\<rparr>)"
  using assms
  by (simp add: mode_set_def seq_def write_register_ok sleep_ok ret_def
      MODE_REGISTER_def CONFIG_MODE_def)

lemma mode_get_ok:
  assumes "faults s = []"
  shows "mode_get s =
         (Inr (uint (regs s 0x3d)),
          s\<lparr>buf0 := 0x3d, trace := trace s @ [BusRead 0x3d], buf1 := regs s 0x3d\<rparr>)"
  using assms by (simp add: mode_get_def read_register_ok MODE_REGISTER_def)

lemma uint_chip_id_iff: "(uint (w :: 8 word) = 0xa0) = (w = 0xa0)"
  using word_uint_eq_iff [of w "0xa0"] by simp

lemma and_3_eq_mod_4: "(k :: int) AND 3 = k mod 4"
proof -
  have "(3 :: int) = mask 2" by (simp add: mask_eq_exp_minus_1)
  then have "k AND 3 = take_bit 2 k" by (simp add: take_bit_eq_mask)
  then show ?thesis by (simp add: take_bit_eq_mod)
qed

lemma calibration_status_ok:
  assumes "faults s = []"
  shows "calibration_status s =
         (Inr (uint (regs s 0x35) div 64 mod 4, uint (regs s 0x35) div 16 mod 4,
               uint (regs s 0x35) div 4 mod 4, uint (regs s 0x35) mod 4),
          s\<lparr>buf0 := 0x35, trace := trace s @ [BusRead 0x35], buf1 := regs s 0x35\<rparr>)"
  using assms
  by (simp add: calibration_status_def seq_def read_register_ok CALIBRATION_REGISTER_def
      ret_def Let_def and_3_eq_mod_4 drop_bit_eq_div)

lemma calibrated_ok:
  assumes "faults s = []"
  shows "calibrated s =
         (Inr (fst (calibration_status s) = Inr (3, 3, 3, 3)),
          s\<lparr>buf0 := 0x35, trace := trace s @ [BusRead 0x35], buf1 := regs s 0x35\<rparr>)"
proof -
  define a where "a = uint (regs s 0x35) div 64 mod 4"
  define b where "b = uint (regs s 0x35) div 16 mod 4"
  define c where "c = uint (regs s 0x35) div 4 mod 4"
  define d where "d = uint (regs s 0x35) mod 4"
  define s' where "s' = s\<lparr>buf0 := 0x35, trace := trace s @ [BusRead 0x35], buf1 := regs s 0x35\<rparr>"
  have cs: "calibration_status s = (Inr (a, b, c, d), s')"
    unfolding a_def b_def c_def d_def s'_def by (rule calibration_status_ok [OF assms])
  have "calibrated s = (Inr (a = b \<and> b = c \<and> c = d \<and> d = 3), s')"
    by (simp add: calibrated_def seq_def cs ret_def)
  moreover have "(a = b \<and> b = c \<and> c = d \<and> d = 3) = (fst (calibration_status s) = Inr (3, 3, 3, 3))"
    unfolding cs by auto
  ultimately show ?thesis unfolding s'_def by simp
qed

text \<open>A statement sequence returns only if each of its statements does.\<close>

lemma seq_Inr_iff:
  "(seq m f s = (Inr y, t)) = (\<exists>x s'. m s = (Inr x, s') \<and> f x s' = (Inr y, t))"
  by (auto simp add: seq_def split: prod.splits sum.splits)

text \<open>
  Whatever the chip and the bus do, \<open>get_calibration\<close> does not return: past the
  calibration check it calls the integer that the mode getter returned.
\<close>

lemma get_calibration_never_returns: "fst (get_calibration s) \<noteq> Inr data"
proof
  assume "fst (get_calibration s) = Inr data"
  then obtain t where "get_calibration s = (Inr data, t)"
    by (cases "get_calibration s") simp
  then obtain c s1 where c: "calibrated s = (Inr c, s1)"
    and r: "(if \<not> c then raise (ValueError ''Device not yet calibrated!'')
       else
       seq mode_get (\<lambda>m.
       seq (call_int m [CONFIG_MODE]) (\<lambda>_.
       seq (read_bytes 0x55 22) (\<lambda>data.
       seq mode_get (\<lambda>m'.
       seq (call_int m' [NDOF_MODE]) (\<lambda>_.
       ret data)))))) s1 = (Inr data, t)"
    unfolding get_calibration_def seq_Inr_iff by blast
  show False
  proof (cases c)
    case True
    with r show False
      by (auto simp add: seq_Inr_iff call_int_def raise_def)
  next
    case False
    with r show False by (simp add: raise_def)
  qed
qed

text \<open>What a step does to the registers and the fault schedule, the trace left out.\<close>

lemma mode_get_effect:
  assumes "faults s = []"
  obtains s' where "mode_get s = (Inr (uint (regs s 0x3d)), s')"
    and "faults s' = []" and "regs s' = regs s"
  using assms by (simp add: mode_get_ok)

lemma mode_set_effect:
  assumes "0 \<le> M" "M < 256" "faults s = []"
  obtains s' where "mode_set M s = (Inr (), s')"
    and "faults s' = []" and "regs s' = (regs s)(0x3d := word_of_int M)"
  using assms by (simp add: mode_set_ok)

lemma write_register_effect:
  assumes "0 \<le> r" "r < 256" "0 \<le> v" "v < 256" "faults s = []"
  obtains s' where "write_register r v s = (Inr (), s')"
    and "faults s' = []" and "regs s' = (regs s)(word_of_int r := word_of_int v)"
  using assms by (simp add: write_register_ok)

lemma read_register_effect:
  assumes "0 \<le> r" "r < 256" "faults s = []"
  obtains s' where "read_register r s = (Inr (uint (regs s (word_of_int r))), s')"
    and "faults s' = []" and "regs s' = regs s"
  using assms by (simp add: read_register_ok)

lemma sleep_effect:
  obtains s' where "sleep ms s = (Inr (), s')"
    and "faults s' = faults s" and "regs s' = regs s"
  by (simp add: sleep_ok)

lemma use_external_crystal_ok:
  assumes "faults s = []"
  shows "fst (use_external_crystal val s) = Inr () \<and>
         faults (snd (use_external_crystal val s)) = [] \<and>
         regs (snd (use_external_crystal val s)) =
           (regs s)(0x07 := 0, 0x3f := (if val then 0x80 else 0x00))"
proof -
  let ?m = "uint (regs s 0x3d)"
  let ?v = "if val then 0x80 else 0x00 :: int"
  have m: "0 \<le> ?m" "?m < 256" by (simp_all add: uint_byte_less)
  have v: "0 \<le> ?v" "?v < 256" by simp_all
  obtain s1 where 1: "mode_get s = (Inr ?m, s1)" "faults s1 = []" "regs s1 = regs s"
    using mode_get_effect [OF assms] by blast
  obtain s2 where 2: "mode_set CONFIG_MODE s1 = (Inr (), s2)" "faults s2 = []"
    "regs s2 = (regs s1)(0x3d := 0)"
    using mode_set_effect [of CONFIG_MODE s1] 1(2) by (auto simp add: CONFIG_MODE_def)
  obtain s3 where 3: "write_register PAGE_REGISTER 0x00 s2 = (Inr (), s3)" "faults s3 = []"
    "regs s3 = (regs s2)(0x07 := 0)"
    using write_register_effect [of PAGE_REGISTER 0 s2] 2(2)
    by (auto simp add: PAGE_REGISTER_def)
  obtain s4 where 4: "write_register TRIGGER_REGISTER ?v s3 = (Inr (), s4)" "faults s4 = []"
    "regs s4 = (regs s3)(0x3f := word_of_int ?v)"
    using write_register_effect [of TRIGGER_REGISTER ?v s3] 3(2) v
    by (auto simp add: TRIGGER_REGISTER_def)
  obtain s5 where 5: "mode_set ?m s4 = (Inr (), s5)" "faults s5 = []"
    "regs s5 = (regs s4)(0x3d := regs s 0x3d)"
    using mode_set_effect [of ?m s4] 4(2) m by auto
  obtain s6 where 6: "sleep 10 s5 = (Inr (), s6)" "faults s6 = faults s5" "regs s6 = regs s5"
    using sleep_effect [of 10 s5] by blast
  have r: "use_external_crystal val s = (Inr (), s6)"
    by (simp add: use_external_crystal_def seq_def 1 2 3 4 5 6)
  have "regs s6 = (regs s)(0x07 := 0, 0x3f := (if val then 0x80 else 0x00))"
    by (rule ext) (simp add: 1 2 3 4 5 6)
  then show ?thesis by (simp add: r 5 6)
qed

lemma external_crystal_ok:
  assumes "faults s = []"
  shows "fst (external_crystal s) = Inr (uint (regs s 0x3f) = 0x80) \<and>
         faults (snd (external_crystal s)) = [] \<and>
         regs (snd (external_crystal s)) = (regs s)(0x07 := 0)"
proof -
  let ?m = "uint (regs s 0x3d)"
  have m: "0 \<le> ?m" "?m < 256" by (simp_all add: uint_byte_less)
  obtain s1 where 1: "mode_get s = (Inr ?m, s1)" "faults s1 = []" "regs s1 = regs s"
    using mode_get_effect [OF assms] by blast
  obtain s2 where 2: "mode_set CONFIG_MODE s1 = (Inr (), s2)" "faults s2 = []"
    "regs s2 = (regs s1)(0x3d := 0)"
    using mode_set_effect [of CONFIG_MODE s1] 1(2) by (auto simp add: CONFIG_MODE_def)
  obtain s3 where 3: "write_register PAGE_REGISTER 0x00 s2 = (Inr (), s3)" "faults s3 = []"
    "regs s3 = (regs s2)(0x07 := 0)"
    using write_register_effect [of PAGE_REGISTER 0 s2] 2(2)
    by (auto simp add: PAGE_REGISTER_def)
  obtain s4 where 4: "read_register TRIGGER_REGISTER s3 = (Inr (uint (regs s3 0x3f)), s4)"
    "faults s4 = []" "regs s4 = regs s3"
    using read_register_effect [of TRIGGER_REGISTER s3] 3(2)
    by (auto simp add: TRIGGER_REGISTER_def)
  obtain s5 where 5: "mode_set ?m s4 = (Inr (), s5)" "faults s5 = []"
    "regs s5 = (regs s4)(0x3d := regs s 0x3d)"
    using mode_set_effect [of ?m s4] 4(2) m by auto
  have r: "external_crystal s = (Inr (uint (regs s3 0x3f) = 0x80), s5)"
    by (simp add: external_crystal_def seq_def ret_def 1 2 3 4 5)
  have "regs s5 = (regs s)(0x07 := 0)"
    by (rule ext) (simp add: 1 2 3 4 5)
  moreover have "regs s3 0x3f = regs s 0x3f" by (simp add: 1 2 3)
  ultimately show ?thesis by (simp add: r 5)
qed

text \<open>
  \<open>split\<close> returns one entry more than the text has separators: a text that ends
  with the separator has an empty last entry.
\<close>

lemma split_str_not_Nil: "split_str sep cs \<noteq> []"
  by (induction cs) (auto split: list.splits)

lemma length_split_str: "length (split_str sep cs) = Suc (count_list cs sep)"
  by (induction cs) (auto simp add: split_str_not_Nil split: list.splits)

text \<open>
  The functions behind the two properties, given their argument: a wrong length is
  refused before anything is put on the bus.
\<close>

lemma set_calibration_fget_wrong_length:
  assumes "data = None \<or> (\<exists>d. data = Some d \<and> length d \<noteq> 22)"
  shows "set_calibration_fget (Given data) s =
           (Inl (ValueError ''Expected a list of 22 bytes of calibration data!''), s)"
  using assms by (auto simp add: set_calibration_fget_def raise_def)

lemma load_calibration_fget_wrong_entry_count:
  assumes "length (split_str (CHR 0x0A) content) \<noteq> 22"
  shows "load_calibration_fget (Given fpath) (Some content) s =
           (Inl (ValueError ''Expected a list of 22 bytes of calibration data!''), s)"
  using assms by (simp add: load_calibration_fget_def fread_def raise_def)

text \<open>
  A file of 22 lines, each ended by its line feed as \<open>save_calibration\<close> writes them,
  has 23 entries and is refused.
\<close>

lemma load_calibration_fget_refuses_22_lines:
  "load_calibration_fget (Given fpath)
     (Some (concat (replicate 22 [CHR ''7'', CHR 0x0A]))) s =
   (Inl (ValueError ''Expected a list of 22 bytes of calibration data!''), s)"
proof -
  have "count_list (concat (replicate 22 [CHR ''7'', CHR 0x0A])) (CHR 0x0A) = 22"
    by code_simp
  then have "length (split_str (CHR 0x0A) (concat (replicate 22 [CHR ''7'', CHR 0x0A]))) \<noteq> 22"
    by (simp add: length_split_str)
  then show ?thesis by (rule load_calibration_fget_wrong_entry_count)
qed

text \<open>Through a sensor, neither property gets as far as its body.\<close>

lemma set_calibration_call_raises:
  "set_calibration_call data s =
     (Inl (TypeError ''set_calibration() missing 1 required positional argument: data''), s)"
  by (simp add: set_calibration_call_def set_calibration_def set_calibration_fget_def
      seq_def missing_argument_def raise_def)

lemma load_calibration_call_raises:
  "load_calibration_call fpath file s =
     (Inl (TypeError ''load_calibration() missing 1 required positional argument: fpath''), s)"
  by (simp add: load_calibration_call_def load_calibration_def load_calibration_fget_def
      seq_def missing_argument_def raise_def)

text \<open>The loader returns for no argument and no file.\<close>

lemma load_loop_raises:
  "items \<noteq> [] \<Longrightarrow> load_loop items data s = (Inl (NameError ''byte''), s)"
  by (cases items) (simp_all add: seq_def raise_def)

lemma load_calibration_fget_never_returns:
  "fst (load_calibration_fget a file s) \<noteq> Inr data"
  by (cases a; cases "file")
     (simp_all add: load_calibration_fget_def missing_argument_def raise_def fread_def
        seq_def load_loop_raises split_str_not_Nil)

text \<open>
  A scaled read on a chip whose acceleration registers hold 100, -1 and -32768, and a
  temperature read on a chip whose temperature register holds 0xF6.
\<close>

lemma upt_6: "[0..<6] = [0, 1, 2, 3, 4, 5 :: nat]"
  by (simp add: upt_rec)

lemma getattr_acceleration_example:
  "fst (getattr acceleration
     \<lparr>regs = (\<lambda>_. 0)(0x08 := 0x64, 0x0a := 0xff, 0x0b := 0xff, 0x0c := 0x00, 0x0d := 0x80),
      faults = [], trace = [], buf0 = 0, buf1 = 0\<rparr>) =
   Inr (PyTuple [1, - 1 / 100, - 32768 / 100])"
  by (simp add: acceleration_def ScaledReadOnlyStruct_get_def Struct_get_def fields_of_def
      seq_def read_block_def log_def transaction_def ret_def int16_le_def upt_6)

lemma getattr_temperature_example:
  "fst (getattr temperature
     \<lparr>regs = (\<lambda>_. 0)(0x34 := 0xf6), faults = [], trace = [], buf0 = 0, buf1 = 0\<rparr>) =
   Inr (PyInt (- 10))"
  by (simp add: temperature_def UnaryStruct_get_def Struct_get_def fields_of_def
      seq_def read_block_def log_def transaction_def ret_def)

section \<open>Claims\<close>

text \<open>
  C1. For every target mode \<open>M\<close> (any byte value, so each of the thirteen mode codes)
  and every state of the chip, also one whose mode register already holds \<open>M\<close>, the
  mode setter on a bus that does not fail first writes \<open>CONFIG_MODE\<close> to the mode
  register and sleeps 20 ms; when \<open>M\<close> is not \<open>CONFIG_MODE\<close> it then writes \<open>M\<close> and
  sleeps 10 ms, and when \<open>M\<close> is \<open>CONFIG_MODE\<close> the first write is the only one.
\<close>

theorem C1_mode_setter_sequence:
  assumes "0 \<le> M" "M < 256" "faults s = []"
  shows "fst (mode_set M s) = Inr () \<and>
         trace (snd (mode_set M s)) =
           trace s @
           (if M = CONFIG_MODE
            then [BusWrite 0x3d 0x00, Sleep 20]
            else [BusWrite 0x3d 0x00, Sleep 20, BusWrite 0x3d (word_of_int M), Sleep 10])"
  using assms
  by (simp add: mode_set_def seq_def write_register_ok sleep_ok ret_def
      MODE_REGISTER_def CONFIG_MODE_def)

theorem C1_mode_setter_sequence_witness:
  "0 \<le> NDOF_MODE \<and> NDOF_MODE < 256 \<and> faults (bench 0xa0 0xff 0x0c) = [] \<and>
   regs (bench 0xa0 0xff 0x0c) 0x3d = word_of_int NDOF_MODE \<and>
   fst (mode_set NDOF_MODE (bench 0xa0 0xff 0x0c)) = Inr () \<and>
   trace (snd (mode_set NDOF_MODE (bench 0xa0 0xff 0x0c))) =
     [BusWrite 0x3d 0x00, Sleep 20, BusWrite 0x3d 0x0c, Sleep 10]"
  using C1_mode_setter_sequence [of NDOF_MODE "bench 0xa0 0xff 0x0c"]
  by (simp add: NDOF_MODE_def CONFIG_MODE_def bench_def)

text \<open>
  C2. Constructing the driver against a chip whose identity register holds a byte
  other than 0xA0, on a bus that does not fail, raises the \<open>RuntimeError\<close> for a bad
  chip id. Up to that point the driver has issued one read of the identity register
  and nothing else, so no mode or power register was written, and the registers of
  the chip are as they were.
\<close>

theorem C2_bad_chip_id:
  assumes "chip_regs 0x00 \<noteq> 0xa0" "bus_faults = []"
  shows "fst (BNO055 chip_regs bus_faults) =
           Inl (RuntimeError ''bad chip id (%x != %x)'' [uint (chip_regs 0x00), 0xa0]) \<and>
         trace (snd (BNO055 chip_regs bus_faults)) = [BusRead 0x00] \<and>
         regs (snd (BNO055 chip_regs bus_faults)) = chip_regs"
  using assms
  by (simp add: BNO055_def init_def seq_def read_register_ok ID_REGISTER_def CHIP_ID_def
      raise_def uint_chip_id_iff)

theorem C2_bad_chip_id_witness:
  "(\<lambda>_. 0 :: 8 word) 0x00 \<noteq> 0xa0 \<and>
   fst (BNO055 (\<lambda>_. 0) []) = Inl (RuntimeError ''bad chip id (%x != %x)'' [0x00, 0xa0]) \<and>
   trace (snd (BNO055 (\<lambda>_. 0) [])) = [BusRead 0x00] \<and>
   regs (snd (BNO055 (\<lambda>_. 0) [])) = (\<lambda>_. 0)"
  using C2_bad_chip_id [of "\<lambda>_. 0" "[]"] by simp

text \<open>
  C3. For every state in which the calibration status is not (3, 3, 3, 3), on a bus
  that does not fail, \<open>get_calibration\<close> raises the \<open>ValueError\<close> for a device that is
  not calibrated. On that path the driver issues the read of the calibration status
  register and nothing else: there is no register write and the registers of the chip
  are unchanged.
\<close>

theorem C3_get_calibration_uncalibrated:
  assumes "faults s = []" "fst (calibration_status s) \<noteq> Inr (3, 3, 3, 3)"
  shows "fst (get_calibration s) = Inl (ValueError ''Device not yet calibrated!'') \<and>
         regs (snd (get_calibration s)) = regs s \<and>
         trace (snd (get_calibration s)) = trace s @ [BusRead 0x35]"
  using assms
  by (simp add: get_calibration_def seq_def calibrated_ok raise_def)

theorem C3_get_calibration_uncalibrated_witness:
  "faults (bench 0xa0 0x3f 0x0c) = [] \<and>
   fst (calibration_status (bench 0xa0 0x3f 0x0c)) = Inr (0, 3, 3, 3) \<and>
   fst (get_calibration (bench 0xa0 0x3f 0x0c)) =
     Inl (ValueError ''Device not yet calibrated!'') \<and>
   regs (snd (get_calibration (bench 0xa0 0x3f 0x0c))) = regs (bench 0xa0 0x3f 0x0c) \<and>
   trace (snd (get_calibration (bench 0xa0 0x3f 0x0c))) = [BusRead 0x35]"
proof -
  have f: "faults (bench 0xa0 0x3f 0x0c) = []" by (simp add: bench_def)
  have c: "fst (calibration_status (bench 0xa0 0x3f 0x0c)) = Inr (0, 3, 3, 3)"
    by (simp add: calibration_status_ok f) (simp add: bench_def)
  have n: "fst (calibration_status (bench 0xa0 0x3f 0x0c)) \<noteq> Inr (3, 3, 3, 3)"
    by (simp add: c)
  show ?thesis
    using C3_get_calibration_uncalibrated [OF f n] f c by (simp add: bench_def)
qed

text \<open>
  C4. The claim is that \<open>get_calibration\<close> on a fully calibrated device returns the 22
  bytes read at register 0x55 and leaves the operating mode as it was. On the chip
  with status byte 0xFF in mode \<open>NDOF_MODE\<close> and a bus that does not fail, the code
  reads the calibration status, reads the mode register and then raises \<open>TypeError\<close>,
  since \<open>self.mode(CONFIG_MODE)\<close> calls the integer the mode getter returned. No block
  is read and nothing is returned.
\<close>

theorem C4_get_calibration_calibrated_raises:
  "fst (calibration_status (bench 0xa0 0xff 0x0c)) = Inr (3, 3, 3, 3) \<and>
   fst (get_calibration (bench 0xa0 0xff 0x0c)) =
     Inl (TypeError ''int object is not callable'') \<and>
   trace (snd (get_calibration (bench 0xa0 0xff 0x0c))) = [BusRead 0x35, BusRead 0x3d]"
proof -
  have f: "faults (bench 0xa0 0xff 0x0c) = []" by (simp add: bench_def)
  have c: "fst (calibration_status (bench 0xa0 0xff 0x0c)) = Inr (3, 3, 3, 3)"
    by (simp add: calibration_status_ok f) (simp add: bench_def)
  show ?thesis
    by (simp add: c get_calibration_def seq_def calibrated_ok f mode_get_ok call_int_def
        raise_def)
       (simp add: bench_def)
qed

text \<open>
  C5, as the claim states its example: for the status byte 0b11100100 the result
  would be (sys = 3, gyro = 2, accel = 0, mag = 0). It is not: bits 3:2 of that byte
  are 01.
\<close>

theorem C5_calibration_status_example_counterexample:
  "fst (calibration_status (bench 0xa0 0xe4 0x0c)) \<noteq> Inr (3, 2, 0, 0)"
proof -
  have f: "faults (bench 0xa0 0xe4 0x0c) = []" by (simp add: bench_def)
  show ?thesis by (simp add: calibration_status_ok f) (simp add: bench_def)
qed

text \<open>
  C5, amended. On a bus that does not fail, \<open>calibration_status\<close> decodes the status
  byte into four 2-bit fields, sys from bits 7:6, gyro from bits 5:4, accel from bits
  3:2 and mag from bits 1:0; for the status byte 0b11100100 it returns
  (sys = 3, gyro = 2, accel = 1, mag = 0).
\<close>

theorem C5_calibration_status_fields:
  assumes "faults s = []"
  shows "fst (calibration_status s) =
           Inr (uint (regs s 0x35) div 64 mod 4, uint (regs s 0x35) div 16 mod 4,
                uint (regs s 0x35) div 4 mod 4, uint (regs s 0x35) mod 4) \<and>
         (regs s 0x35 = 0xe4 \<longrightarrow> fst (calibration_status s) = Inr (3, 2, 1, 0))"
  using assms by (simp add: calibration_status_ok)

theorem C5_calibration_status_fields_witness:
  "faults (bench 0xa0 0xe4 0x0c) = [] \<and> regs (bench 0xa0 0xe4 0x0c) 0x35 = 0xe4 \<and>
   fst (calibration_status (bench 0xa0 0xe4 0x0c)) = Inr (3, 2, 1, 0)"
  using C5_calibration_status_fields [of "bench 0xa0 0xe4 0x0c"] by (simp add: bench_def)

text \<open>
  C6. The claim is that \<open>set_calibration\<close> refuses every argument that is \<open>None\<close> or
  whose length is not 22 with the \<open>ValueError\<close> for a wrong length, before any register
  write. With a list of 21 bytes, \<open>sensor.set_calibration(data)\<close> raises \<open>TypeError\<close>
  instead: \<open>set_calibration\<close> is a property, so reading the attribute calls the
  function without \<open>data\<close>, and the length check is not reached. Assigning the list to
  the attribute raises \<open>AttributeError\<close>. The state is as it was, so nothing is written
  either way. The \<open>ValueError\<close> is raised only when the function behind the property
  is called directly with the list.
\<close>

theorem C6_set_calibration_21_bytes_raises_TypeError:
  "set_calibration_call (Some (replicate 21 0)) (bench 0xa0 0xff 0x0c) =
     (Inl (TypeError ''set_calibration() missing 1 required positional argument: data''),
      bench 0xa0 0xff 0x0c) \<and>
   set_calibration_assign (Some (replicate 21 0)) (bench 0xa0 0xff 0x0c) =
     (Inl (AttributeError ''property set_calibration has no setter''),
      bench 0xa0 0xff 0x0c) \<and>
   set_calibration_fget (Given (Some (replicate 21 0))) (bench 0xa0 0xff 0x0c) =
     (Inl (ValueError ''Expected a list of 22 bytes of calibration data!''),
      bench 0xa0 0xff 0x0c)"
  by (simp add: set_calibration_call_def set_calibration_def set_calibration_fget_def
      set_calibration_assign_def no_setter_def seq_def missing_argument_def raise_def)

text \<open>
  C7. For every operating mode held by the mode register before the calls, on a bus
  that does not fail: assigning \<open>True\<close> to \<open>use_external_crystal\<close> (the name the class
  binds the setter to) succeeds and leaves the mode register as it was; reading
  \<open>external_crystal\<close> after that returns \<open>True\<close>, and the mode register after the round
  trip again holds the mode from before the calls.
\<close>

theorem C7_external_crystal_round_trip:
  assumes "faults s = []"
  shows "fst (use_external_crystal True s) = Inr () \<and>
         regs (snd (use_external_crystal True s)) 0x3d = regs s 0x3d \<and>
         fst (external_crystal (snd (use_external_crystal True s))) = Inr True \<and>
         regs (snd (external_crystal (snd (use_external_crystal True s)))) 0x3d =
           regs s 0x3d"
proof -
  let ?s1 = "snd (use_external_crystal True s)"
  have a: "fst (use_external_crystal True s) = Inr ()" "faults ?s1 = []"
    "regs ?s1 = (regs s)(0x07 := 0, 0x3f := 0x80)"
    using use_external_crystal_ok [OF assms, of True] by simp_all
  have b: "fst (external_crystal ?s1) = Inr (uint (regs ?s1 0x3f) = 0x80)"
    "regs (snd (external_crystal ?s1)) = (regs ?s1)(0x07 := 0)"
    using external_crystal_ok [OF a(2)] by simp_all
  show ?thesis by (simp add: a b)
qed

theorem C7_external_crystal_round_trip_witness:
  "faults (bench 0xa0 0xff 0x0c) = [] \<and> regs (bench 0xa0 0xff 0x0c) 0x3d = 0x0c \<and>
   fst (use_external_crystal True (bench 0xa0 0xff 0x0c)) = Inr () \<and>
   regs (snd (use_external_crystal True (bench 0xa0 0xff 0x0c))) 0x3d = 0x0c \<and>
   fst (external_crystal (snd (use_external_crystal True (bench 0xa0 0xff 0x0c)))) =
     Inr True \<and>
   regs (snd (external_crystal (snd (use_external_crystal True (bench 0xa0 0xff 0x0c)))))
     0x3d = 0x0c"
proof -
  have f: "faults (bench 0xa0 0xff 0x0c) = []" by (simp add: bench_def)
  have m: "regs (bench 0xa0 0xff 0x0c) 0x3d = 0x0c" by (simp add: bench_def)
  show ?thesis using C7_external_crystal_round_trip [OF f] f m by simp
qed

text \<open>
  C8. The claim is that \<open>load_calibration\<close> refuses every file whose number of lines
  is not 22 with the \<open>ValueError\<close> for a wrong length, without a register write. With
  a file of 21 lines, each ended by its line feed, \<open>sensor.load_calibration(fpath)\<close>
  raises \<open>TypeError\<close>: \<open>load_calibration\<close> is a property, so reading the attribute calls
  the function without \<open>fpath\<close>, before the file is opened. Called directly with a
  path, the function does not refuse the file either: the 21 line feeds make 22
  entries for \<open>split\<close>, the length check passes, and the loop raises \<open>NameError\<close> on
  the undefined \<open>byte\<close>. The state is as it was in both cases.
\<close>

theorem C8_load_calibration_21_lines_not_refused:
  "count_list (concat (replicate 21 [CHR ''7'', CHR 0x0A])) (CHR 0x0A) = 21 \<and>
   load_calibration_call ''cal.txt'' (Some (concat (replicate 21 [CHR ''7'', CHR 0x0A])))
       (bench 0xa0 0xff 0x0c) =
     (Inl (TypeError ''load_calibration() missing 1 required positional argument: fpath''),
      bench 0xa0 0xff 0x0c) \<and>
   load_calibration_fget (Given ''cal.txt'')
       (Some (concat (replicate 21 [CHR ''7'', CHR 0x0A]))) (bench 0xa0 0xff 0x0c) =
     (Inl (NameError ''byte''), bench 0xa0 0xff 0x0c)"
proof -
  have c: "count_list (concat (replicate 21 [CHR ''7'', CHR 0x0A])) (CHR 0x0A) = 21"
    by code_simp
  then have l: "length (split_str (CHR 0x0A) (concat (replicate 21 [CHR ''7'', CHR 0x0A]))) = 22"
    by (simp add: length_split_str)
  have a: "load_calibration_call ''cal.txt''
       (Some (concat (replicate 21 [CHR ''7'', CHR 0x0A]))) (bench 0xa0 0xff 0x0c) =
     (Inl (TypeError ''load_calibration() missing 1 required positional argument: fpath''),
      bench 0xa0 0xff 0x0c)"
    by (simp add: load_calibration_call_def load_calibration_def load_calibration_fget_def
        seq_def missing_argument_def raise_def)
  have b: "load_calibration_fget (Given ''cal.txt'')
       (Some (concat (replicate 21 [CHR ''7'', CHR 0x0A]))) (bench 0xa0 0xff 0x0c) =
     (Inl (NameError ''byte''), bench 0xa0 0xff 0x0c)"
    by (simp add: load_calibration_fget_def fread_def l seq_def raise_def)
  show ?thesis using a b c by simp
qed

text \<open>
  C9. For each of the accessors acceleration, magnetic, gyroscope, euler, quaternion,
  linear_acceleration, gravity and temperature, and for every value, assigning the
  value to the accessor raises \<open>NotImplementedError\<close> and leaves the state as it was.
\<close>

theorem C9_assignment_refused:
  assumes "d \<in> set [acceleration, magnetic, gyroscope, euler, quaternion,
                     linear_acceleration, gravity, temperature]"
  shows "setattr d v s = (Inl NotImplementedError, s)"
  by (cases d) (simp_all add: ScaledReadOnlyStruct_set_def ReadOnlyUnaryStruct_set_def raise_def)

theorem C9_assignment_refused_witness:
  "quaternion \<in> set [acceleration, magnetic, gyroscope, euler, quaternion,
                     linear_acceleration, gravity, temperature] \<and>
   setattr quaternion (1 :: int) (bench 0xa0 0xff 0x0c) =
     (Inl NotImplementedError, bench 0xa0 0xff 0x0c)"
  using C9_assignment_refused [of quaternion "1 :: int" "bench 0xa0 0xff 0x0c"] by simp

text \<open>
  C10. The deprecated accessor accelerometer and the accessor acceleration are bound
  to the register address 0x08 with the layout \<open><hhh\<close> and the scale 1/100, and
  magnetometer and magnetic to the address 0x0e with the same layout and the scale
  1/16; in every state, reading a deprecated accessor gives what reading its
  replacement gives.
\<close>

theorem C10_deprecated_accessors_agree:
  "register_address accelerometer = 0x08 \<and> register_address acceleration = 0x08 \<and>
   struct_format accelerometer = ''<hhh'' \<and> struct_format acceleration = ''<hhh'' \<and>
   scale accelerometer = 1 / 100 \<and> scale acceleration = 1 / 100 \<and>
   register_address magnetometer = 0x0e \<and> register_address magnetic = 0x0e \<and>
   struct_format magnetometer = ''<hhh'' \<and> struct_format magnetic = ''<hhh'' \<and>
   scale magnetometer = 1 / 16 \<and> scale magnetic = 1 / 16 \<and>
   getattr accelerometer s = getattr acceleration s \<and>
   getattr magnetometer s = getattr magnetic s"
  by (simp add: accelerometer_def acceleration_def magnetometer_def magnetic_def)

end
